theory Spec2Isabelle
  imports Main "HOL-Library.Word" "HOL-Library.Sublist"
begin

section \<open>Sandboxed preview runs: \<open>backend/app/sandbox.py\<close>\<close>

text \<open>
  \<open>run_preview\<close> builds one \<open>docker run\<close> command line, spawns it with
  \<open>subprocess.Popen\<close>, waits for it with \<open>proc.communicate(timeout=timeout)\<close> and
  turns what happens into a dictionary or lets an exception escape. The function is
  modelled with explicit state passing: the state is the host's process table together with
  the list of calls made to the subprocess layer, and everything the outside world decides
  during one call (the UUID drawn, whether the spawn works, what the child writes and when
  it exits) is a value of the record \<open>world\<close>. The subprocess layer is the one of
  CPython (3.9 or later) on a POSIX host, called with a whole number of seconds as timeout;
  an interrupt is considered only where the call blocks, inside \<open>communicate\<close>.
\<close>

subsection \<open>Bytes and text\<close>

type_synonym byte = "8 word"

text \<open>A Python \<open>str\<close> is a sequence of Unicode code points.\<close>

type_synonym pystr = "nat list"

definition pystr :: "string \<Rightarrow> pystr" where
  "pystr s = map of_char s"

definition cont :: "byte \<Rightarrow> bool" where
  "cont c = (0x80 \<le> c \<and> c \<le> 0xBF)"

definition low6 :: "byte \<Rightarrow> nat" where
  "low6 c = unat c - 0x80"

text \<open>
  \<open>bytes.decode("utf-8")\<close> with the default \<open>errors="strict"\<close>: a well-formed
  sequence gives its code points, anything else (a stray continuation byte, a truncated
  or overlong sequence, a surrogate, a value above U+10FFFF) raises
  \<open>UnicodeDecodeError\<close>, here \<open>None\<close>.
\<close>

fun utf8_decode :: "byte list \<Rightarrow> pystr option" where
  "utf8_decode [] = Some []"
| "utf8_decode (b # bs) =
     (if b < 0x80 then map_option ((#) (unat b)) (utf8_decode bs)
      else if 0xC2 \<le> b \<and> b \<le> 0xDF then
        (case bs of
           c1 # r \<Rightarrow>
             if cont c1
             then map_option ((#) ((unat b - 0xC0) * 64 + low6 c1)) (utf8_decode r)
             else None
         | _ \<Rightarrow> None)
      else if 0xE0 \<le> b \<and> b \<le> 0xEF then
        (case bs of
           c1 # c2 # r \<Rightarrow>
             if (if b = 0xE0 then 0xA0 else 0x80) \<le> c1
                \<and> c1 \<le> (if b = 0xED then 0x9F else 0xBF) \<and> cont c2
             then map_option ((#) ((unat b - 0xE0) * 4096 + low6 c1 * 64 + low6 c2))
                    (utf8_decode r)
             else None
         | _ \<Rightarrow> None)
      else if 0xF0 \<le> b \<and> b \<le> 0xF4 then
        (case bs of
           c1 # c2 # c3 # r \<Rightarrow>
             if (if b = 0xF0 then 0x90 else 0x80) \<le> c1
                \<and> c1 \<le> (if b = 0xF4 then 0x8F else 0xBF) \<and> cont c2 \<and> cont c3
             then map_option
                    ((#) ((unat b - 0xF0) * 262144 + low6 c1 * 4096 + low6 c2 * 64 + low6 c3))
                    (utf8_decode r)
             else None
         | _ \<Rightarrow> None)
      else None)"

subsection \<open>The subprocess layer\<close>

text \<open>
  The exceptions that can reach \<open>run_preview\<close>: \<open>subprocess.TimeoutExpired\<close> from
  \<open>communicate\<close>, \<open>OSError\<close> (with its message) from \<open>Popen\<close> when the
  \<open>docker\<close> executable cannot be started, \<open>UnicodeDecodeError\<close> from
  \<open>decode\<close>, \<open>OverflowError\<close> from the \<open>poll\<close> call inside \<open>communicate\<close>
  when the timeout does not fit its argument, and \<open>KeyboardInterrupt\<close> for an
  interrupt delivered while the call blocks.
\<close>

datatype exn =
  TimeoutExpired | OSError string | UnicodeDecodeError | KeyboardInterrupt | OverflowError

text \<open>
  A child is \<open>Running\<close> from its spawn on, \<open>KillSent\<close> once \<open>proc.kill()\<close> has sent
  SIGKILL and nobody has waited for it (\<open>proc.returncode\<close> is still \<open>None\<close>), and
  \<open>Exited rc\<close> once a wait has collected its return code.
\<close>

datatype proc_status = Running | KillSent | Exited int

datatype event = Popen "string list" | Communicate nat int | Kill nat

record host =
  procs :: "proc_status list"
  events :: "event list"

text \<open>
  What the outside world does during one call. Output is a list of chunks, each with the
  time at which it was written to a pipe; \<open>exits_at = None\<close> is a child that runs until
  it is killed (as a static file server does). \<open>eof_at\<close> is the time at which both pipes
  reach end of file, that is when the child and every descendant that inherited them have
  closed them; \<open>None\<close> when somebody holds them open for good. \<open>readable_dirs\<close> lists
  the directories that exist and are readable on the host; \<open>interrupted\<close> says that an
  interrupt reaches the caller while it waits for the child, and \<open>exits_in_grace\<close> that
  the child has exited by the end of the quarter of a second \<open>communicate\<close> then gives
  it.
\<close>

record world =
  uuid4 :: string
  readable_dirs :: "string list"
  spawn_error :: "string option"
  exits_at :: "nat option"
  eof_at :: "nat option"
  returncode :: int
  stdout_chunks :: "(nat \<times> byte list) list"
  stderr_chunks :: "(nat \<times> byte list) list"
  interrupted :: bool
  exits_in_grace :: bool

definition buffered :: "(nat \<times> byte list) list \<Rightarrow> nat \<Rightarrow> byte list" where
  "buffered chunks t = concat (map snd (filter (\<lambda>c. fst c \<le> t) chunks))"

text \<open>\<open>subprocess.Popen(cmd, ...)\<close>: the new child's handle is its index in the table.\<close>

definition popen :: "string list \<Rightarrow> world \<Rightarrow> host \<Rightarrow> (exn + nat) \<times> host" where
  "popen cmd w h =
     (let h1 = h\<lparr>events := events h @ [Popen cmd]\<rparr>
      in case spawn_error w of
           Some msg \<Rightarrow> (Inl (OSError msg), h1)
         | None \<Rightarrow> (Inr (length (procs h)), h1\<lparr>procs := procs h @ [Running]\<rparr>))"

text \<open>
  The selector inside \<open>communicate\<close> hands the remaining time to \<open>poll\<close> in
  milliseconds, which must fit a C \<open>int\<close>: a timeout of 2147484 seconds or more does not.
\<close>

definition wait_overflows :: "int \<Rightarrow> bool" where
  "wait_overflows t = (2147483647 < t * 1000)"

text \<open>
  Whether the child has exited, and whether in addition both pipes have reached end of
  file, strictly before the deadline \<open>t\<close> (in seconds from the spawn).
\<close>

definition exited_before :: "int \<Rightarrow> world \<Rightarrow> bool" where
  "exited_before t w = (case exits_at w of None \<Rightarrow> False | Some d \<Rightarrow> int d < t)"

definition finished_before :: "int \<Rightarrow> world \<Rightarrow> bool" where
  "finished_before t w =
     (exited_before t w \<and> (case eof_at w of None \<Rightarrow> False | Some e \<Rightarrow> int e < t))"

definition captured :: "(nat \<times> byte list) list \<Rightarrow> world \<Rightarrow> byte list" where
  "captured chunks w = (case eof_at w of None \<Rightarrow> [] | Some e \<Rightarrow> buffered chunks e)"

text \<open>
  \<open>proc.communicate(timeout=t)\<close> with both streams piped. The first \<open>poll\<close> raises
  \<open>OverflowError\<close> when the timeout is too large, before anything is read. An interrupt
  that arrives during the wait is re-raised after a grace wait of a quarter of a second, in
  which a child that exits is collected. Otherwise the call reads both pipes to end of
  file and then waits for the child: it returns the two streams when all of that is over
  before the deadline, and raises \<open>TimeoutExpired\<close> when it is not (a timeout of zero or
  less expires at once). Only a return and a successful grace wait collect the child.
\<close>

definition communicate ::
  "nat \<Rightarrow> int \<Rightarrow> world \<Rightarrow> host \<Rightarrow> (exn + byte list \<times> byte list) \<times> host" where
  "communicate p t w h =
     (let h1 = h\<lparr>events := events h @ [Communicate p t]\<rparr>;
          h2 = h1\<lparr>procs := (procs h)[p := Exited (returncode w)]\<rparr>
      in if wait_overflows t then (Inl OverflowError, h1)
         else if interrupted w
         then (Inl KeyboardInterrupt, if exits_in_grace w then h2 else h1)
         else if finished_before t w
         then (Inr (captured (stdout_chunks w) w, captured (stderr_chunks w) w), h2)
         else (Inl TimeoutExpired, h1))"

text \<open>
  \<open>proc.kill()\<close>, called when a wait of \<open>t\<close> seconds has expired. It polls the child
  first: one that has exited meanwhile is collected and gets no signal; otherwise SIGKILL
  is sent. In both cases the call returns at once; it does not wait.
\<close>

definition kill :: "nat \<Rightarrow> int \<Rightarrow> world \<Rightarrow> host \<Rightarrow> host" where
  "kill p t w h =
     h\<lparr>events := events h @ [Kill p],
       procs := (if p < length (procs h) \<and> procs h ! p = Running
                 then (procs h)[p := (if exited_before t w then Exited (returncode w)
                                      else KillSent)]
                 else procs h)\<rparr>"

subsection \<open>\<open>run_preview\<close>\<close>

type_synonym result = "string \<rightharpoonup> pystr"

text \<open>Lines 15 to 22: the command line.\<close>

definition preview_cmd :: "string \<Rightarrow> string \<Rightarrow> string \<Rightarrow> string list" where
  "preview_cmd container_name code_dir container_image =
     [''docker'', ''run'', ''--rm'', ''--name'', container_name,
      ''--network'', ''none'',
      ''-v'', code_dir @ '':/srv:ro'',
      ''-w'', ''/srv'',
      container_image,
      ''npx'', ''http-server'', ''-p'', ''8080'']"

text \<open>
  Lines 12 to 23, up to and including the spawn. \<open>Popen\<close> does not block, so a second
  call can run these lines while the first one is still waiting in \<open>communicate\<close>.
\<close>

definition launch :: "string \<Rightarrow> string \<Rightarrow> world \<Rightarrow> host \<Rightarrow> (exn + nat) \<times> host" where
  "launch container_image code_dir w h =
     (let run_id = take 8 (uuid4 w);
          container_name = ''svgbuilder_preview_'' @ run_id;
          cmd = preview_cmd container_name code_dir container_image
      in popen cmd w h)"

text \<open>Lines 24 to 29: the \<open>try\<close> block and its single handler.\<close>

definition supervise :: "nat \<Rightarrow> int \<Rightarrow> world \<Rightarrow> host \<Rightarrow> (exn + result) \<times> host" where
  "supervise proc timeout w h =
     (case communicate proc timeout w h of
        (Inr (out, err), h1) \<Rightarrow>
          (case utf8_decode out of
             None \<Rightarrow> (Inl UnicodeDecodeError, h1)
           | Some out_text \<Rightarrow>
               (case utf8_decode err of
                  None \<Rightarrow> (Inl UnicodeDecodeError, h1)
                | Some err_text \<Rightarrow>
                    (Inr [''out'' \<mapsto> out_text, ''err'' \<mapsto> err_text], h1)))
      | (Inl TimeoutExpired, h1) \<Rightarrow>
          (Inr [''error'' \<mapsto> pystr ''timeout''], kill proc timeout w h1)
      | (Inl e, h1) \<Rightarrow> (Inl e, h1))"

definition run_preview ::
  "string \<Rightarrow> string \<Rightarrow> int \<Rightarrow> world \<Rightarrow> host \<Rightarrow> (exn + result) \<times> host" where
  "run_preview container_image code_dir timeout w h =
     (case launch container_image code_dir w h of
        (Inl e, h1) \<Rightarrow> (Inl e, h1)
      | (Inr proc, h1) \<Rightarrow> supervise proc timeout w h1)"

subsection \<open>Vocabulary of the properties\<close>

text \<open>The name given to the container: line 13.\<close>

definition container_name :: "world \<Rightarrow> string" where
  "container_name w = ''svgbuilder_preview_'' @ take 8 (uuid4 w)"

text \<open>
  The two ways a call can go once the spawn has worked and the wait is neither refused for
  its length nor interrupted: the child exits by itself and its output ends before the
  timeout, or the timeout expires first.
\<close>

definition terminates_naturally :: "int \<Rightarrow> world \<Rightarrow> bool" where
  "terminates_naturally t w =
     (spawn_error w = None \<and> \<not> wait_overflows t \<and> \<not> interrupted w
      \<and> finished_before t w)"

definition times_out :: "int \<Rightarrow> world \<Rightarrow> bool" where
  "times_out t w =
     (spawn_error w = None \<and> \<not> wait_overflows t \<and> \<not> interrupted w
      \<and> \<not> finished_before t w)"



definition active_sessions :: "host \<Rightarrow> nat" where
  "active_sessions h = length (filter (\<lambda>s. s = Running) (procs h))"

definition is_Popen :: "event \<Rightarrow> bool" where
  "is_Popen e = (case e of Popen cmd \<Rightarrow> True | _ \<Rightarrow> False)"

definition runtime_invocations :: "host \<Rightarrow> nat" where
  "runtime_invocations h = length (filter is_Popen (events h))"

text \<open>
  Reading a \<open>docker run\<close> argument list: an option followed by its value, and an argument
  that selects the user (\<open>-u\<close>, \<open>--user\<close>, also in the forms \<open>-u1000\<close> and
  \<open>--user=1000\<close>).
\<close>

fun has_option :: "string \<Rightarrow> string \<Rightarrow> string list \<Rightarrow> bool" where
  "has_option k v (a # b # rest) = ((a = k \<and> b = v) \<or> has_option k v (b # rest))"
| "has_option k v rest = False"

definition user_option :: "string \<Rightarrow> bool" where
  "user_option a = (prefix ''-u'' a \<or> prefix ''--user'' a)"

definition sets_user :: "string list \<Rightarrow> bool" where
  "sets_user cmd = list_ex user_option cmd"

text \<open>The status a caller reads off a returned dictionary.\<close>

datatype status = Ok | Timeout | Error

definition status_of :: "result \<Rightarrow> status" where
  "status_of res =
     (case res ''error'' of
        None \<Rightarrow> Ok
      | Some v \<Rightarrow> if v = pystr ''timeout'' then Timeout else Error)"

subsection \<open>Concrete hosts and worlds\<close>

definition fresh_host :: host where
  "fresh_host = \<lparr>procs = [], events = []\<rparr>"

text \<open>A host on which three previews are already running.\<close>

definition busy_host :: host where
  "busy_host =
     \<lparr>procs = [Running, Running, Running],
      events = [Popen [''docker'', ''run'', ''a''], Popen [''docker'', ''run'', ''b''],
                Popen [''docker'', ''run'', ''c'']]\<rparr>"

text \<open>A child that writes \<open>hello\<close> and \<open>!\<close> and exits with status 1 after one second.\<close>

definition quick_child :: world where
  "quick_child =
     \<lparr>uuid4 = ''123e4567-e89b-12d3-a456-426614174000'', readable_dirs = [''/code''],
      spawn_error = None, exits_at = Some 1, eof_at = Some 1, returncode = 1,
      stdout_chunks = [(0, [0x68, 0x65, 0x6C, 0x6C, 0x6F])], stderr_chunks = [(0, [0x21])],
      interrupted = False, exits_in_grace = False\<rparr>"

text \<open>A server that writes \<open>hi\<close> at once and then runs until it is killed.\<close>

definition server_child :: world where
  "server_child =
     \<lparr>uuid4 = ''9f1c2d3e-0000-4000-8000-000000000001'', readable_dirs = [''/code''],
      spawn_error = None, exits_at = None, eof_at = None, returncode = 0,
      stdout_chunks = [(0, [0x68, 0x69])], stderr_chunks = [],
      interrupted = False, exits_in_grace = False\<rparr>"


text \<open>A child whose standard output is the single byte FF and exits with status 0; and one
  whose standard error ends in the middle of a two-byte sequence.\<close>

definition binary_child :: world where
  "binary_child = quick_child\<lparr>returncode := 0, stdout_chunks := [(0, [0xFF])]\<rparr>"

definition cut_child :: world where
  "cut_child = quick_child\<lparr>returncode := 0, stderr_chunks := [(0, [0xC3])]\<rparr>"

text \<open>
  A child that exits at once while a descendant keeps both pipes open; a server during
  whose run the caller is interrupted; and a \<open>docker\<close> client that cannot obtain the
  image: it writes \<open>docker: Error\<close> to standard error and exits with status 125.
\<close>

definition held_pipes :: world where
  "held_pipes = quick_child\<lparr>exits_at := Some 0, eof_at := None\<rparr>"



subsection \<open>The session registry\<close>

text \<open>
  Modelled from the spec: the Session Registry of section 4.1, whose \<open>release\<close> the
  sources do not contain (\<open>run_preview\<close> keeps no set of sessions). The registry holds
  the configured ceiling and the active sessions; \<open>release\<close> removes the session with the
  given id from the active set and cannot fail.
\<close>

record session =
  sid :: string
  asset_path :: string
  image :: string

record registry =
  max_concurrent :: nat
  active :: "session list"

definition release :: "string \<Rightarrow> registry \<Rightarrow> registry" where
  "release i r = r\<lparr>active := filter (\<lambda>s. sid s \<noteq> i) (active r)\<rparr>"

section \<open>Paths through \<open>run_preview\<close>\<close>

lemma launch_fails:
  assumes "spawn_error w = Some msg"
  shows "launch img dir w h =
           (Inl (OSError msg),
            h\<lparr>events := events h @ [Popen (preview_cmd (container_name w) dir img)]\<rparr>)"
  using assms by (simp add: launch_def popen_def container_name_def)

lemma launch_ok:
  assumes "spawn_error w = None"
  shows "launch img dir w h =
           (Inr (length (procs h)),
            h\<lparr>events := events h @ [Popen (preview_cmd (container_name w) dir img)],
              procs := procs h @ [Running]\<rparr>)"
  using assms by (simp add: launch_def popen_def container_name_def)

lemma run_preview_spawn_fails:
  assumes "spawn_error w = Some msg"
  shows "run_preview img dir t w h =
           (Inl (OSError msg),
            h\<lparr>events := events h @ [Popen (preview_cmd (container_name w) dir img)]\<rparr>)"
  using assms by (simp add: run_preview_def launch_fails)

lemma run_preview_overflows:
  assumes "spawn_error w = None" and "wait_overflows t"
  shows "run_preview img dir t w h =
           (Inl OverflowError,
            \<lparr>procs = procs h @ [Running],
             events = events h @ [Popen (preview_cmd (container_name w) dir img),
                                  Communicate (length (procs h)) t]\<rparr>)"
  using assms
  by (simp add: run_preview_def launch_ok supervise_def communicate_def)

lemma run_preview_interrupted:
  assumes "spawn_error w = None" and "\<not> wait_overflows t" and "interrupted w"
  shows "run_preview img dir t w h =
           (Inl KeyboardInterrupt,
            \<lparr>procs = procs h @ [if exits_in_grace w then Exited (returncode w) else Running],
             events = events h @ [Popen (preview_cmd (container_name w) dir img),
                                  Communicate (length (procs h)) t]\<rparr>)"
  using assms
  by (simp add: run_preview_def launch_ok supervise_def communicate_def)

lemma run_preview_times_out:
  assumes "times_out t w"
  shows "run_preview img dir t w h =
           (Inr [''error'' \<mapsto> pystr ''timeout''],
            \<lparr>procs = procs h @ [if exited_before t w then Exited (returncode w) else KillSent],
             events = events h @ [Popen (preview_cmd (container_name w) dir img),
                                  Communicate (length (procs h)) t,
                                  Kill (length (procs h))]\<rparr>)"
  using assms
  by (simp add: run_preview_def launch_ok supervise_def communicate_def kill_def
      times_out_def)

lemma run_preview_exits:
  assumes "terminates_naturally t w"
  shows "run_preview img dir t w h =
           ((case utf8_decode (captured (stdout_chunks w) w) of
               None \<Rightarrow> Inl UnicodeDecodeError
             | Some out_text \<Rightarrow>
                 (case utf8_decode (captured (stderr_chunks w) w) of
                    None \<Rightarrow> Inl UnicodeDecodeError
                  | Some err_text \<Rightarrow> Inr [''out'' \<mapsto> out_text, ''err'' \<mapsto> err_text])),
            \<lparr>procs = procs h @ [Exited (returncode w)],
             events = events h @ [Popen (preview_cmd (container_name w) dir img),
                                  Communicate (length (procs h)) t]\<rparr>)"
  using assms
  by (auto simp: run_preview_def launch_ok supervise_def communicate_def
      terminates_naturally_def split: option.splits)

lemma path_cases:
  obtains (spawn_fails) msg where "spawn_error w = Some msg"
  | (overflow) "spawn_error w = None" and "wait_overflows t"
  | (interrupt) "spawn_error w = None" and "\<not> wait_overflows t" and "interrupted w"
  | (exits) "terminates_naturally t w"
  | (timeout) "times_out t w"
  by (cases "spawn_error w"; cases "interrupted w"; cases "wait_overflows t";
      cases "finished_before t w")
     (auto simp: terminates_naturally_def times_out_def)

section \<open>Facts about the concrete worlds and the decoder\<close>

lemma server_times_out: "times_out 30 server_child"
  by (simp add: times_out_def wait_overflows_def finished_before_def exited_before_def
      server_child_def)

lemma quick_terminates: "terminates_naturally 30 quick_child"
  by (simp add: terminates_naturally_def wait_overflows_def finished_before_def
      exited_before_def quick_child_def)

lemma quick_captured:
  "utf8_decode (captured (stdout_chunks quick_child) quick_child) = Some (pystr ''hello'')"
  "utf8_decode (captured (stderr_chunks quick_child) quick_child) = Some (pystr ''!'')"
  by (simp_all add: captured_def buffered_def quick_child_def pystr_def)

lemma quick_result:
  "fst (run_preview ''node:18-alpine'' ''/code'' 30 quick_child fresh_host)
     = Inr [''out'' \<mapsto> pystr ''hello'', ''err'' \<mapsto> pystr ''!'']"
  unfolding run_preview_exits [OF quick_terminates] quick_captured by simp

lemma server_result:
  "fst (run_preview ''node:18-alpine'' ''/code'' 30 server_child fresh_host)
     = Inr [''error'' \<mapsto> pystr ''timeout'']"
  by (simp add: run_preview_times_out [OF server_times_out])

lemma overflow_limit: "wait_overflows 2147484" "\<not> wait_overflows 2147483"
  by (simp_all add: wait_overflows_def)


lemma utf8_decode_length:
  "utf8_decode bs = Some s \<Longrightarrow> length s \<le> length bs \<and> length bs \<le> 4 * length s"
proof (induction bs arbitrary: s rule: utf8_decode.induct)
  case 1
  then show ?case by simp
next
  case (2 b bs)
  then show ?case
    by (fastforce split: if_splits list.splits)
qed

section \<open>The claims\<close>

subsection \<open>C1: teardown before the call returns\<close>




subsection \<open>C2: the timeout path\<close>




subsection \<open>C3: the asset path is not validated\<close>

text \<open>
  C3 does not hold as stated. With no readable directory on the host at all, a request for
  \<open>/no/such/dir\<close> still invokes the container runtime once, and what comes back is
  the timeout dictionary, not a rejection.
\<close>

theorem missing_asset_dir_counterexample:
  "''/no/such/dir'' \<notin> set (readable_dirs (server_child\<lparr>readable_dirs := []\<rparr>))
   \<and> runtime_invocations fresh_host = 0
   \<and> runtime_invocations
        (snd (run_preview ''node:18-alpine'' ''/no/such/dir'' 30
                (server_child\<lparr>readable_dirs := []\<rparr>) fresh_host)) = 1
   \<and> fst (run_preview ''node:18-alpine'' ''/no/such/dir'' 30
            (server_child\<lparr>readable_dirs := []\<rparr>) fresh_host)
       = Inr [''error'' \<mapsto> pystr ''timeout'']"
proof -
  have t: "times_out 30 (server_child\<lparr>readable_dirs := []\<rparr>)"
    by (simp add: times_out_def wait_overflows_def finished_before_def exited_before_def
        server_child_def)
  show ?thesis
    by (simp add: run_preview_times_out [OF t] runtime_invocations_def is_Popen_def
        fresh_host_def)
qed

text \<open>
  C3, amended: \<open>run_preview\<close> does not look at the asset directory before launching:
  for every request, whether or not the directory exists, the container runtime is invoked
  exactly once, with the path as the source of the bind mount.
\<close>

theorem runtime_invoked_for_every_path:
  "runtime_invocations (snd (run_preview img dir t w h)) = runtime_invocations h + 1
   \<and> Popen (preview_cmd (container_name w) dir img)
        \<in> set (events (snd (run_preview img dir t w h)))"
proof (cases rule: path_cases [where w = w and t = t])
  case (spawn_fails msg)
  then show ?thesis
    by (simp add: run_preview_spawn_fails runtime_invocations_def is_Popen_def)
next
  case overflow
  then show ?thesis
    by (simp add: run_preview_overflows runtime_invocations_def is_Popen_def)
next
  case interrupt
  then show ?thesis
    by (simp add: run_preview_interrupted runtime_invocations_def is_Popen_def)
next
  case exits
  then show ?thesis
    by (simp add: run_preview_exits runtime_invocations_def is_Popen_def)
next
  case timeout
  then show ?thesis
    by (simp add: run_preview_times_out runtime_invocations_def is_Popen_def)
qed

subsection \<open>C4: no concurrency ceiling\<close>

text \<open>
  C4 does not hold as stated, already for a ceiling of one session. A second request that
  arrives while the first is still running is launched as well: both spawns return a
  handle and two sessions are active.
\<close>

theorem concurrency_ceiling_counterexample:
  "fst (launch ''node:18-alpine'' ''/a'' quick_child fresh_host) = Inr 0
   \<and> fst (launch ''node:18-alpine'' ''/b'' server_child
            (snd (launch ''node:18-alpine'' ''/a'' quick_child fresh_host))) = Inr 1
   \<and> active_sessions
        (snd (launch ''node:18-alpine'' ''/b'' server_child
                (snd (launch ''node:18-alpine'' ''/a'' quick_child fresh_host)))) = 2
   \<and> \<not> (2::nat) \<le> 1"
proof -
  have a: "spawn_error quick_child = None" by (simp add: quick_child_def)
  have b: "spawn_error server_child = None" by (simp add: server_child_def)
  show ?thesis
    by (simp add: launch_ok [OF a] launch_ok [OF b] active_sessions_def fresh_host_def)
qed

text \<open>
  C4, amended: \<open>run_preview\<close> applies no ceiling. Whatever the number of sessions
  already running, a further request whose spawn succeeds is started and the number of
  active sessions grows by one; no request is rejected for capacity and none is queued.
\<close>

theorem every_request_admitted:
  assumes "spawn_error w = None"
  shows "fst (launch img dir w h) = Inr (length (procs h))
         \<and> active_sessions (snd (launch img dir w h)) = active_sessions h + 1
         \<and> run_preview img dir t w h
             = supervise (length (procs h)) t w (snd (launch img dir w h))"
  using assms by (simp add: launch_ok active_sessions_def run_preview_def)

theorem every_request_admitted_witness:
  "spawn_error server_child = None
   \<and> active_sessions busy_host = 3
   \<and> fst (launch ''node:18-alpine'' ''/code'' server_child busy_host) = Inr 3
   \<and> active_sessions (snd (launch ''node:18-alpine'' ''/code'' server_child busy_host)) = 4"
proof -
  have s: "spawn_error server_child = None" by (simp add: server_child_def)
  have n: "active_sessions busy_host = 3" "length (procs busy_host) = 3"
    by (simp_all add: active_sessions_def busy_host_def)
  show ?thesis
    using s n every_request_admitted [OF s, of "''node:18-alpine''" "''/code''" busy_host 30]
    by simp
qed

subsection \<open>C5: the container invocation\<close>

text \<open>
  C5 does not hold as stated. The command line built for the default arguments has no
  argument that selects a user, so the process runs as the image's default user.
\<close>

theorem unprivileged_user_counterexample:
  "events (snd (launch ''node:18-alpine'' ''/code'' quick_child fresh_host))
     = [Popen (preview_cmd ''svgbuilder_preview_123e4567'' ''/code'' ''node:18-alpine'')]
   \<and> \<not> sets_user (preview_cmd ''svgbuilder_preview_123e4567'' ''/code'' ''node:18-alpine'')"
proof -
  have a: "spawn_error quick_child = None" by (simp add: quick_child_def)
  have n: "container_name quick_child = ''svgbuilder_preview_123e4567''"
    by (simp add: container_name_def quick_child_def)
  show ?thesis
    by (simp add: launch_ok [OF a] n fresh_host_def preview_cmd_def sets_user_def
        user_option_def)
qed

lemma prefix_mount:
  assumes "\<not> prefix p dir" and "CHR '':'' \<notin> set p"
  shows "\<not> prefix p (dir @ '':/srv:ro'')"
proof
  assume "prefix p (dir @ '':/srv:ro'')"
  with assms(1) obtain us where p: "p = dir @ us" and u: "prefix us '':/srv:ro''"
    by (auto simp: prefix_append)
  from p assms(1) have "us \<noteq> []" by auto
  with u obtain r where "us = CHR '':'' # r"
    by (auto simp: prefix_Cons)
  with p assms(2) show False by simp
qed

lemma user_option_mount:
  assumes "\<not> user_option dir"
  shows "\<not> user_option (dir @ '':/srv:ro'')"
  using assms by (simp add: user_option_def prefix_mount)

text \<open>
  C5, amended: for every launched session the invocation is the one built in lines 15 to
  22: it disables the network (\<open>--network none\<close>), mounts the asset directory read-only
  at \<open>/srv\<close>, sets the working directory to \<open>/srv\<close>, and ends with the image followed
  by the fixed serving command \<open>npx http-server -p 8080\<close>. The code adds no user option:
  whenever neither the asset path nor the image name is itself written as one, no argument
  of the invocation selects a user.
\<close>

theorem isolation_invocation:
  "events (snd (launch img dir w h))
     = events h @ [Popen (preview_cmd (container_name w) dir img)]
   \<and> has_option ''--network'' ''none'' (preview_cmd (container_name w) dir img)
   \<and> has_option ''-v'' (dir @ '':/srv:ro'') (preview_cmd (container_name w) dir img)
   \<and> has_option ''-w'' ''/srv'' (preview_cmd (container_name w) dir img)
   \<and> suffix [img, ''npx'', ''http-server'', ''-p'', ''8080'']
        (preview_cmd (container_name w) dir img)
   \<and> (\<not> user_option dir \<and> \<not> user_option img
        \<longrightarrow> \<not> sets_user (preview_cmd (container_name w) dir img))"
proof (intro conjI impI)
  show "events (snd (launch img dir w h))
          = events h @ [Popen (preview_cmd (container_name w) dir img)]"
    by (cases "spawn_error w") (simp_all add: launch_fails launch_ok)
  show "has_option ''--network'' ''none'' (preview_cmd (container_name w) dir img)"
    by (simp add: preview_cmd_def)
  show "has_option ''-v'' (dir @ '':/srv:ro'') (preview_cmd (container_name w) dir img)"
    by (simp add: preview_cmd_def)
  show "has_option ''-w'' ''/srv'' (preview_cmd (container_name w) dir img)"
    by (simp add: preview_cmd_def)
  show "suffix [img, ''npx'', ''http-server'', ''-p'', ''8080'']
          (preview_cmd (container_name w) dir img)"
    by (simp add: preview_cmd_def suffix_def)
next
  assume a: "\<not> user_option dir \<and> \<not> user_option img"
  have n: "\<not> user_option (container_name w)"
    by (simp add: user_option_def container_name_def)
  from a n show "\<not> sets_user (preview_cmd (container_name w) dir img)"
    by (simp add: sets_user_def preview_cmd_def user_option_mount)
       (simp add: user_option_def)
qed

theorem isolation_invocation_witness:
  "\<not> user_option ''/code'' \<and> \<not> user_option ''node:18-alpine''
   \<and> has_option ''--network'' ''none''
        (preview_cmd ''svgbuilder_preview_123e4567'' ''/code'' ''node:18-alpine'')
   \<and> has_option ''-v'' ''/code:/srv:ro''
        (preview_cmd ''svgbuilder_preview_123e4567'' ''/code'' ''node:18-alpine'')
   \<and> has_option ''-w'' ''/srv''
        (preview_cmd ''svgbuilder_preview_123e4567'' ''/code'' ''node:18-alpine'')
   \<and> suffix [''node:18-alpine'', ''npx'', ''http-server'', ''-p'', ''8080'']
        (preview_cmd ''svgbuilder_preview_123e4567'' ''/code'' ''node:18-alpine'')
   \<and> \<not> sets_user (preview_cmd ''svgbuilder_preview_123e4567'' ''/code'' ''node:18-alpine'')"
proof -
  have u: "\<not> user_option ''/code''" "\<not> user_option ''node:18-alpine''"
    by (simp_all add: user_option_def)
  have n: "container_name quick_child = ''svgbuilder_preview_123e4567''"
    by (simp add: container_name_def quick_child_def)
  show ?thesis
    using u isolation_invocation [of "''node:18-alpine''" "''/code''" quick_child fresh_host]
    by (simp add: n)
qed

subsection \<open>C6: natural termination\<close>

text \<open>
  C6 does not hold as stated: a child that terminates naturally well before the timeout
  does not always give a result with status ok. One that wrote the single byte FF makes
  \<open>out.decode("utf-8")\<close> raise \<open>UnicodeDecodeError\<close>. With a timeout of 2147484
  seconds the wait raises \<open>OverflowError\<close>. When a descendant keeps the pipes open, the
  child that exited at once still ends in the timeout dictionary. And an interrupt during
  the wait escapes as \<open>KeyboardInterrupt\<close>.
\<close>

theorem natural_exit_counterexample:
  "exits_at binary_child = Some 1 \<and> eof_at binary_child = Some 1
   \<and> fst (run_preview ''node:18-alpine'' ''/code'' 30 binary_child fresh_host)
       = Inl UnicodeDecodeError
   \<and> exits_at quick_child = Some 1 \<and> eof_at quick_child = Some 1
   \<and> fst (run_preview ''node:18-alpine'' ''/code'' 2147484 quick_child fresh_host)
       = Inl OverflowError
   \<and> exits_at held_pipes = Some 0 \<and> eof_at held_pipes = None
   \<and> fst (run_preview ''node:18-alpine'' ''/code'' 30 held_pipes fresh_host)
       = Inr [''error'' \<mapsto> pystr ''timeout'']
   \<and> interrupted (quick_child\<lparr>interrupted := True\<rparr>)
   \<and> fst (run_preview ''node:18-alpine'' ''/code'' 30 (quick_child\<lparr>interrupted := True\<rparr>)
            fresh_host)
       = Inl KeyboardInterrupt"
proof -
  have t: "terminates_naturally 30 binary_child"
    by (simp add: terminates_naturally_def wait_overflows_def finished_before_def
        exited_before_def binary_child_def quick_child_def)
  have o: "utf8_decode (captured (stdout_chunks binary_child) binary_child) = None"
    by (simp add: captured_def buffered_def binary_child_def quick_child_def)
  have a: "fst (run_preview ''node:18-alpine'' ''/code'' 30 binary_child fresh_host)
             = Inl UnicodeDecodeError"
    unfolding run_preview_exits [OF t] o by simp
  have q: "spawn_error quick_child = None" by (simp add: quick_child_def)
  have hp: "times_out 30 held_pipes"
    by (simp add: times_out_def wait_overflows_def finished_before_def exited_before_def
        held_pipes_def quick_child_def)
  have i: "spawn_error (quick_child\<lparr>interrupted := True\<rparr>) = None" "\<not> wait_overflows 30"
    "interrupted (quick_child\<lparr>interrupted := True\<rparr>)"
    by (simp_all add: quick_child_def wait_overflows_def)
  have e: "exits_at binary_child = Some 1" "eof_at binary_child = Some 1"
    "exits_at quick_child = Some 1" "eof_at quick_child = Some 1"
    "exits_at held_pipes = Some 0" "eof_at held_pipes = None"
    by (simp_all add: binary_child_def quick_child_def held_pipes_def)
  show ?thesis
    using a e
    by (simp add: run_preview_overflows [OF q overflow_limit(1)]
        run_preview_times_out [OF hp] run_preview_interrupted [OF i])
qed

text \<open>
  C6, amended: for every run in which the wait is neither refused for its length nor
  interrupted, whose child exits and whose two pipes reach end of file before the timeout,
  and whose two captured streams are valid UTF-8, \<open>run_preview\<close> collects the child's
  exit status and returns the dictionary of the decoded streams, which reads as status ok
  (it has no \<open>error\<close> key); the result is the same whatever the exit status, zero or
  not.
\<close>

theorem natural_exit_is_ok:
  assumes "terminates_naturally t w"
    and "utf8_decode (captured (stdout_chunks w) w) = Some out_text"
    and "utf8_decode (captured (stderr_chunks w) w) = Some err_text"
  shows "fst (run_preview img dir t w h) = Inr [''out'' \<mapsto> out_text, ''err'' \<mapsto> err_text]
         \<and> status_of [''out'' \<mapsto> out_text, ''err'' \<mapsto> err_text] = Ok
         \<and> procs (snd (run_preview img dir t w h)) ! length (procs h) = Exited (returncode w)
         \<and> fst (run_preview img dir t (w\<lparr>returncode := rc\<rparr>) h) = fst (run_preview img dir t w h)"
proof -
  have t': "terminates_naturally t (w\<lparr>returncode := rc\<rparr>)"
    using assms(1)
    by (simp add: terminates_naturally_def finished_before_def exited_before_def)
  have c: "captured chunks (w\<lparr>returncode := rc\<rparr>) = captured chunks w" for chunks
    by (simp add: captured_def)
  show ?thesis
    using assms(2,3)
    by (simp add: run_preview_exits [OF assms(1)] run_preview_exits [OF t'] c status_of_def)
qed

theorem natural_exit_is_ok_witness:
  "terminates_naturally 30 quick_child
   \<and> returncode quick_child = 1
   \<and> utf8_decode (captured (stdout_chunks quick_child) quick_child) = Some (pystr ''hello'')
   \<and> utf8_decode (captured (stderr_chunks quick_child) quick_child) = Some (pystr ''!'')
   \<and> fst (run_preview ''node:18-alpine'' ''/code'' 30 quick_child fresh_host)
       = Inr [''out'' \<mapsto> pystr ''hello'', ''err'' \<mapsto> pystr ''!'']
   \<and> status_of [''out'' \<mapsto> pystr ''hello'', ''err'' \<mapsto> pystr ''!''] = Ok
   \<and> procs (snd (run_preview ''node:18-alpine'' ''/code'' 30 quick_child fresh_host)) ! 0
       = Exited 1
   \<and> fst (run_preview ''node:18-alpine'' ''/code'' 30 (quick_child\<lparr>returncode := 0\<rparr>) fresh_host)
       = Inr [''out'' \<mapsto> pystr ''hello'', ''err'' \<mapsto> pystr ''!'']"
proof -
  have r: "returncode quick_child = 1" by (simp add: quick_child_def)
  have p: "length (procs fresh_host) = 0" by (simp add: fresh_host_def)
  show ?thesis
    using r p quick_terminates quick_captured
      natural_exit_is_ok [OF quick_terminates quick_captured,
        of "''node:18-alpine''" "''/code''" fresh_host 0]
    by simp
qed

subsection \<open>C7: launch failure\<close>




subsection \<open>C8: captured output is not capped\<close>

text \<open>
  C8 does not hold as stated, for instance with a limit of 4 bytes: the child's five bytes
  \<open>hello\<close> are returned whole, and the result has no \<open>truncated\<close> key.
\<close>

theorem output_cap_counterexample:
  "fst (run_preview ''node:18-alpine'' ''/code'' 30 quick_child fresh_host)
     = Inr [''out'' \<mapsto> pystr ''hello'', ''err'' \<mapsto> pystr ''!'']
   \<and> captured (stdout_chunks quick_child) quick_child = [0x68, 0x65, 0x6C, 0x6C, 0x6F]
   \<and> \<not> length (pystr ''hello'') \<le> 4
   \<and> ''truncated'' \<notin> dom [''out'' \<mapsto> pystr ''hello'', ''err'' \<mapsto> pystr ''!'']"
proof -
  have c: "captured (stdout_chunks quick_child) quick_child = [0x68, 0x65, 0x6C, 0x6C, 0x6F]"
    by (simp add: captured_def buffered_def quick_child_def)
  show ?thesis
    using c quick_result by (simp add: pystr_def)
qed

text \<open>
  C8, amended: there is no byte limit. Whenever \<open>run_preview\<close> returns the two streams,
  each is the decoding of everything that was captured from its pipe, whatever its size
  (the returned text accounts for every captured byte, at most four per character), and
  the result has no \<open>truncated\<close> key.
\<close>

theorem output_returned_whole:
  assumes "fst (run_preview img dir t w h) = Inr res"
    and "res ''out'' = Some out_text" and "res ''err'' = Some err_text"
  shows "utf8_decode (captured (stdout_chunks w) w) = Some out_text
         \<and> utf8_decode (captured (stderr_chunks w) w) = Some err_text
         \<and> length (captured (stdout_chunks w) w) \<le> 4 * length out_text
         \<and> length (captured (stderr_chunks w) w) \<le> 4 * length err_text
         \<and> res ''truncated'' = None"
proof (cases rule: path_cases [where w = w and t = t])
  case (spawn_fails msg)
  with assms show ?thesis by (simp add: run_preview_spawn_fails)
next
  case overflow
  with assms show ?thesis by (simp add: run_preview_overflows)
next
  case interrupt
  with assms show ?thesis by (simp add: run_preview_interrupted)
next
  case exits
  with assms have d: "utf8_decode (captured (stdout_chunks w) w) = Some out_text"
    "utf8_decode (captured (stderr_chunks w) w) = Some err_text"
    and r: "res ''truncated'' = None"
    by (auto simp: run_preview_exits split: option.splits)
  from d r utf8_decode_length [OF d(1)] utf8_decode_length [OF d(2)]
  show ?thesis by simp
next
  case timeout
  with assms show ?thesis
    by (auto simp: run_preview_times_out)
qed

theorem output_returned_whole_witness:
  "fst (run_preview ''node:18-alpine'' ''/code'' 30 quick_child fresh_host)
     = Inr [''out'' \<mapsto> pystr ''hello'', ''err'' \<mapsto> pystr ''!'']
   \<and> [''out'' \<mapsto> pystr ''hello'', ''err'' \<mapsto> pystr ''!''] ''out'' = Some (pystr ''hello'')
   \<and> [''out'' \<mapsto> pystr ''hello'', ''err'' \<mapsto> pystr ''!''] ''err'' = Some (pystr ''!'')
   \<and> utf8_decode (captured (stdout_chunks quick_child) quick_child) = Some (pystr ''hello'')
   \<and> utf8_decode (captured (stderr_chunks quick_child) quick_child) = Some (pystr ''!'')
   \<and> length (captured (stdout_chunks quick_child) quick_child) \<le> 4 * length (pystr ''hello'')
   \<and> length (captured (stderr_chunks quick_child) quick_child) \<le> 4 * length (pystr ''!'')
   \<and> [''out'' \<mapsto> pystr ''hello'', ''err'' \<mapsto> pystr ''!''] ''truncated'' = None"
proof -
  have o: "[''out'' \<mapsto> pystr ''hello'', ''err'' \<mapsto> pystr ''!''] ''out'' = Some (pystr ''hello'')"
    and e: "[''out'' \<mapsto> pystr ''hello'', ''err'' \<mapsto> pystr ''!''] ''err'' = Some (pystr ''!'')"
    by simp_all
  show ?thesis
    using quick_result o e output_returned_whole [OF quick_result o e] by simp
qed

subsection \<open>C9: releasing twice\<close>

text \<open>
  C9: for every session id, a second \<open>release\<close> leaves the registry exactly as the
  first one left it; after the first call no active session carries the id, and the
  configured ceiling is untouched. \<open>release\<close> has no failing outcome.
\<close>

theorem release_idempotent:
  "release i (release i r) = release i r
   \<and> list_all (\<lambda>s. sid s \<noteq> i) (active (release i r))
   \<and> max_concurrent (release i r) = max_concurrent r"
  by (simp add: release_def list_all_iff)

subsection \<open>C10: the two shapes of a result\<close>

text \<open>
  C10 does not hold as stated. A child that terminates naturally but whose standard error
  stops in the middle of a two-byte sequence makes \<open>err.decode("utf-8")\<close> raise: the
  invocation returns no dictionary of either shape.
\<close>

theorem result_shape_counterexample:
  "terminates_naturally 30 cut_child
   \<and> fst (run_preview ''node:18-alpine'' ''/code'' 30 cut_child fresh_host)
       = Inl UnicodeDecodeError"
proof -
  have t: "terminates_naturally 30 cut_child"
    by (simp add: terminates_naturally_def wait_overflows_def finished_before_def
        exited_before_def cut_child_def quick_child_def)
  have o: "utf8_decode (captured (stdout_chunks cut_child) cut_child) = Some (pystr ''hello'')"
    by (simp add: captured_def buffered_def cut_child_def quick_child_def pystr_def)
  have s: "utf8_decode (captured (stderr_chunks cut_child) cut_child) = None"
    by (simp add: captured_def buffered_def cut_child_def quick_child_def)
  have "fst (run_preview ''node:18-alpine'' ''/code'' 30 cut_child fresh_host)
          = Inl UnicodeDecodeError"
    unfolding run_preview_exits [OF t] o s by simp
  with t show ?thesis by simp
qed

text \<open>
  C10, amended: every dictionary that \<open>run_preview\<close> returns has exactly one of two
  shapes. Either the child terminated naturally and the keys are exactly \<open>out\<close> and
  \<open>err\<close>, holding the UTF-8 decoded captured streams; or the timeout expired and the
  only key is \<open>error\<close> with value \<open>timeout\<close>, so that no captured output is in
  the result.
\<close>

theorem result_shapes:
  assumes "fst (run_preview img dir t w h) = Inr res"
  shows "(terminates_naturally t w
          \<and> dom res = {''out'', ''err''}
          \<and> res ''out'' = utf8_decode (captured (stdout_chunks w) w)
          \<and> res ''err'' = utf8_decode (captured (stderr_chunks w) w))
         \<or> (times_out t w \<and> dom res = {''error''} \<and> res ''error'' = Some (pystr ''timeout''))"
proof (cases rule: path_cases [where w = w and t = t])
  case (spawn_fails msg)
  with assms show ?thesis by (simp add: run_preview_spawn_fails)
next
  case overflow
  with assms show ?thesis by (simp add: run_preview_overflows)
next
  case interrupt
  with assms show ?thesis by (simp add: run_preview_interrupted)
next
  case exits
  with assms show ?thesis
    by (auto simp: run_preview_exits split: option.splits if_splits)
next
  case timeout
  with assms show ?thesis
    by (auto simp: run_preview_times_out)
qed

theorem result_shapes_witness:
  "fst (run_preview ''node:18-alpine'' ''/code'' 30 quick_child fresh_host)
     = Inr [''out'' \<mapsto> pystr ''hello'', ''err'' \<mapsto> pystr ''!'']
   \<and> terminates_naturally 30 quick_child
   \<and> dom [''out'' \<mapsto> pystr ''hello'', ''err'' \<mapsto> pystr ''!''] = {''out'', ''err''}
   \<and> fst (run_preview ''node:18-alpine'' ''/code'' 30 server_child fresh_host)
       = Inr [''error'' \<mapsto> pystr ''timeout'']
   \<and> times_out 30 server_child
   \<and> dom [''error'' \<mapsto> pystr ''timeout''] = {''error''}"
proof -
  have nt: "\<not> times_out 30 quick_child" and nn: "\<not> terminates_naturally 30 server_child"
    by (simp_all add: times_out_def terminates_naturally_def finished_before_def
        exited_before_def quick_child_def server_child_def)
  show ?thesis
    using quick_result server_result quick_terminates server_times_out nt nn
      result_shapes [OF quick_result] result_shapes [OF server_result]
    by (simp add: quick_captured)
qed

end
